theory Spec2Isabelle
  imports Complex_Main "HOL-Library.Log_Nat"
begin

section \<open>The Xiaomi gateway component\<close>

text \<open>
  A shallow embedding of \<^verbatim>\<open>homeassistant/components/xiaomi.py\<close>: the set-up of the
  component (normalisation of the configured gateways, the discovery loop, the registration
  of the two ringtone services) and the base class of the devices (the battery level parsed
  from a report of the gateway, and the push of a report to a device).

  The values that reach the component are typed as the configuration schema, the service
  data and the reports of the gateway have them: identifiers and keys are strings, the
  ringtone number, the volume and the voltage (millivolts) are Python integers, here
  \<^typ>\<open>int\<close>. The computation of the battery level is embedded a second time on Python's
  numbers, integers and floats, in double precision. Strings are ASCII (\<^typ>\<open>char\<close> is a byte), as the hexadecimal
  identifiers of the gateways are. The gateway library \<^verbatim>\<open>PyXiaomiGateway\<close> and the host
  are outside the file: the library is a parameter of the model, and every call into the
  library or the host is recorded as an effect, in the order of the calls. Logging below the
  level of a warning leaves no trace in the model.
\<close>

subsection \<open>Constants\<close>

text \<open>
  Modelled from the spec: the constant \<^verbatim>\<open>ATTR_BATTERY_LEVEL\<close> comes from
  \<^verbatim>\<open>homeassistant.const\<close>, which is not part of the sources; the spec calls it a fixed
  attribute key. No result below depends on the string chosen here.
\<close>

definition ATTR_BATTERY_LEVEL :: string where
  "ATTR_BATTERY_LEVEL = ''battery_level''"

definition ATTR_GW_SID :: string where
  "ATTR_GW_SID = ''gw_sid''"

definition XIAOMI_COMPONENTS :: "string list" where
  "XIAOMI_COMPONENTS = [''binary_sensor'', ''sensor'', ''switch'', ''light'', ''cover'']"

subsection \<open>Strings\<close>

text \<open>
  \<^verbatim>\<open>s.replace(old, new)\<close> for a pattern \<open>old\<close> of one character, and
  \<^verbatim>\<open>s.lower()\<close> on ASCII: the letters \<open>A\<close> to \<open>Z\<close> (codes 65 to 90) move to
  \<open>a\<close> to \<open>z\<close>, every other character stays.
\<close>

definition replace :: "char \<Rightarrow> string \<Rightarrow> string \<Rightarrow> string" where
  "replace old new s = concat (map (\<lambda>c. if c = old then new else [c]) s)"

definition lower_char :: "char \<Rightarrow> char" where
  "lower_char c =
     (let n = (of_char c :: nat) in if 65 \<le> n \<and> n \<le> 90 then char_of (n + 32) else c)"

definition lower :: "string \<Rightarrow> string" where
  "lower s = map lower_char s"

text \<open>The expression of line 46, \<^verbatim>\<open>gateway['sid'].replace(":", "").lower()\<close>.\<close>

definition normalize_sid :: "string \<Rightarrow> string" where
  "normalize_sid s = lower (replace (CHR '':'') [] s)"

subsection \<open>Configuration, effects and the gateway library\<close>

record gateway_config =
  sid :: "string option"
  key :: "string option"

record config =
  conf_gateways :: "gateway_config list"
  conf_interface :: string
  conf_discovery_retry :: nat

text \<open>A live gateway of the library; the component reads its \<^verbatim>\<open>sid\<close> only.\<close>

record xiaomi_gateway =
  gateway_sid :: string

text \<open>The keyword arguments of \<^verbatim>\<open>write_to_hub\<close>: \<^verbatim>\<open>mid\<close>, and \<^verbatim>\<open>vol\<close> when given.\<close>

record ringtone =
  mid :: int
  vol :: "int option"

datatype log_record =
    Warning_key_not_provided
  | Error_invalid_key string
  | Error_no_gateway_discovered
  | Error_mandatory_parameters
  | Error_mid_not_defined int
  | Error_mandatory_parameter string
  | Error_unknown_gateway_sid string

text \<open>
  \<open>Write_to_hub ip sid r\<close> is the call \<^verbatim>\<open>gateway.write_to_hub(sid, **r)\<close> on the gateway
  stored under the key \<open>ip\<close> of the dictionary \<^verbatim>\<open>gateways\<close> of the library.
\<close>

datatype effect =
    Log log_record
  | Discover_gateways
  | Listen
  | Listen_once_stop
  | Load_platform string
  | Register string
  | Write_to_hub string string ringtone

text \<open>
  The library object: its constructor (from the configured gateways and the interface), its
  method \<^verbatim>\<open>discover_gateways\<close>, as a function on the state \<open>'c\<close> of the object, and its
  dictionary \<^verbatim>\<open>gateways\<close>, as the list of its items in iteration order.
\<close>

record 'c py_xiaomi_gateway =
  construct :: "gateway_config list \<Rightarrow> string \<Rightarrow> 'c"
  discover_gateways :: "'c \<Rightarrow> 'c"
  gateways :: "'c \<Rightarrow> (string \<times> xiaomi_gateway) list"

subsection \<open>Set-up\<close>

text \<open>
  Lines 42 to 55: every gateway has its \<^verbatim>\<open>sid\<close> normalised in place, then its key checked.
  The result is whether the loop ran to its end (\<open>False\<close> is the \<^verbatim>\<open>return False\<close> of
  line 55), the list of gateways as the loop leaves it, and what was logged.
\<close>

fun check_gateways :: "gateway_config list \<Rightarrow> bool \<times> gateway_config list \<times> effect list" where
  "check_gateways [] = (True, [], [])"
| "check_gateways (gateway # rest) =
     (let gateway = (case sid gateway of
                       None \<Rightarrow> gateway
                     | Some s \<Rightarrow> gateway\<lparr>sid := Some (normalize_sid s)\<rparr>)
      in case key gateway of
           None \<Rightarrow>
             (let (ok, rest', logged) = check_gateways rest
              in (ok, gateway # rest', Log Warning_key_not_provided # logged))
         | Some k \<Rightarrow>
             if length k \<noteq> 16 then (False, gateway # rest, [Log (Error_invalid_key k)])
             else (let (ok, rest', logged) = check_gateways rest
                   in (ok, gateway # rest', logged)))"

text \<open>
  Lines 62 to 66: the loop over \<^verbatim>\<open>range(discovery_retry)\<close>, with its \<^verbatim>\<open>break\<close>. The
  first argument is the library, the second \<^verbatim>\<open>len(gateways)\<close>, the third the number of
  iterations left.
\<close>

fun discover :: "'c py_xiaomi_gateway \<Rightarrow> nat \<Rightarrow> nat \<Rightarrow> 'c \<Rightarrow> 'c \<times> effect list" where
  "discover lib expected 0 c = (c, [])"
| "discover lib expected (Suc retry) c =
     (let c = discover_gateways lib c
      in if length (gateways lib c) \<ge> expected then (c, [Discover_gateways])
         else (let (c', effects) = discover lib expected retry c
               in (c', Discover_gateways # effects)))"

text \<open>
  The function \<^verbatim>\<open>setup\<close>: its return value, the library object when one was built, and
  the effects.
\<close>

definition setup_xiaomi ::
    "'c py_xiaomi_gateway \<Rightarrow> config \<Rightarrow> bool \<times> 'c option \<times> effect list" where
  "setup_xiaomi lib cfg =
     (let (ok, gateways_conf, logged) = check_gateways (conf_gateways cfg)
      in if \<not> ok then (False, None, logged)
         else
           (let c = construct lib gateways_conf (conf_interface cfg);
                (c, discovered) =
                   discover lib (length gateways_conf) (conf_discovery_retry cfg) c
            in if gateways lib c = []
               then (False, Some c, logged @ discovered @ [Log Error_no_gateway_discovered])
               else (True, Some c,
                     logged @ discovered @ [Listen, Listen_once_stop]
                       @ map Load_platform XIAOMI_COMPONENTS
                       @ [Register ''play_ringtone'', Register ''stop_ringtone''])))"

subsection \<open>The ringtone services\<close>

record service_call =
  ringtone_id :: "int option"
  gw_sid :: "string option"
  ringtone_vol :: "int option"

text \<open>
  The \<^verbatim>\<open>for\<close> \<dots> \<^verbatim>\<open>else\<close> of lines 104 to 109 and of lines 119 to 125, the same loop
  twice: the first gateway whose \<^verbatim>\<open>sid\<close> is the requested one is written to, and the
  loop is left; when the loop ends without a match, the error is logged.
\<close>

fun write_to_gateway :: "(string \<times> xiaomi_gateway) list \<Rightarrow> string \<Rightarrow> ringtone \<Rightarrow> effect list" where
  "write_to_gateway [] gw r = [Log (Error_unknown_gateway_sid gw)]"
| "write_to_gateway ((ip, gateway) # rest) gw r =
     (if gateway_sid gateway = gw then [Write_to_hub ip (gateway_sid gateway) r]
      else write_to_gateway rest gw r)"

text \<open>
  The first argument of both services is \<^verbatim>\<open>hass.data[PY_XIAOMI_GATEWAY].gateways.items()\<close>
  at the time of the call. The list of line 91 is written as the source has it.
\<close>

definition play_ringtone_service ::
    "(string \<times> xiaomi_gateway) list \<Rightarrow> service_call \<Rightarrow> effect list" where
  "play_ringtone_service items call =
     (case (ringtone_id call, gw_sid call) of
        (Some ring_id, Some gw) \<Rightarrow>
          if ring_id \<in> set [9, 14 - 19] then [Log (Error_mid_not_defined ring_id)]
          else
            (let r = (case ringtone_vol call of
                        None \<Rightarrow> \<lparr>mid = ring_id, vol = None\<rparr>
                      | Some ring_vol \<Rightarrow> \<lparr>mid = ring_id, vol = Some ring_vol\<rparr>)
             in write_to_gateway items gw r)
      | _ \<Rightarrow> [Log Error_mandatory_parameters])"

definition stop_ringtone_service ::
    "(string \<times> xiaomi_gateway) list \<Rightarrow> service_call \<Rightarrow> effect list" where
  "stop_ringtone_service items call =
     (case gw_sid call of
        None \<Rightarrow> [Log (Error_mandatory_parameter ATTR_GW_SID)]
      | Some gw \<Rightarrow> write_to_gateway items gw \<lparr>mid = 10000, vol = None\<rparr>)"

text \<open>The writes among the effects of a call, as pairs of the gateway's key and the payload.\<close>

fun writes :: "effect list \<Rightarrow> (string \<times> string \<times> ringtone) list" where
  "writes [] = []"
| "writes (Write_to_hub ip s r # es) = (ip, s, r) # writes es"
| "writes (e # es) = writes es"

subsection \<open>Devices\<close>

text \<open>
  A report of the gateway: field names to readings. A device: the fields of
  \<^verbatim>\<open>XiaomiDevice\<close>, extended by those of the subclass.
\<close>

type_synonym payload = "string \<rightharpoonup> int"

record device =
  device_sid :: string
  device_name :: string
  device_state_attributes :: "string \<rightharpoonup> int"

datatype error = NotImplementedError | AttributeError

text \<open>
  Python's \<^verbatim>\<open>round\<close> of one argument: to the nearest integer, a tie to the even one.
  The quotient of line 180 is a float in the source and a rational in \<open>parse_voltage\<close>
  below, which takes integer voltages. The computation in double precision is
  \<open>battery_level\<close> further down; on an integer voltage both give the same level
  (\<open>parse_voltage_py_int\<close>).
\<close>

definition round_py :: "rat \<Rightarrow> int" where
  "round_py x =
     (let f = \<lfloor>x\<rfloor>; d = x - of_int f
      in if d < 1 / 2 then f
         else if 1 / 2 < d then f + 1
         else if even f then f else f + 1)"

definition parse_voltage :: "payload \<Rightarrow> 'a device_scheme \<Rightarrow> bool \<times> 'a device_scheme" where
  "parse_voltage data self =
     (case data ''voltage'' of
        None \<Rightarrow> (False, self)
      | Some v \<Rightarrow>
          (let max_volt = 3300;
               min_volt = 2800;
               voltage = min v max_volt;
               voltage = max voltage min_volt;
               percent = (of_int (voltage - min_volt) / of_int (max_volt - min_volt)) * 100
           in (True, self\<lparr>device_state_attributes :=
                            (device_state_attributes self)(ATTR_BATTERY_LEVEL \<mapsto> round_py percent)\<rparr>)))"

text \<open>The method \<^verbatim>\<open>parse_data\<close> of the base class; every kind of device overrides it.\<close>

definition parse_data :: "payload \<Rightarrow> 'a device_scheme \<Rightarrow> error + bool \<times> 'a device_scheme" where
  "parse_data data self = Inl NotImplementedError"

text \<open>
  \<^verbatim>\<open>push_data\<close>, with the \<^verbatim>\<open>parse_data\<close> of the device's class as its first argument.
  The \<^verbatim>\<open>or\<close> of line 168 evaluates its second operand only when the first is false. The
  boolean of the result is whether \<^verbatim>\<open>schedule_update_ha_state\<close> was called.
\<close>

definition push_data ::
    "(payload \<Rightarrow> 'a device_scheme \<Rightarrow> error + bool \<times> 'a device_scheme) \<Rightarrow>
     payload \<Rightarrow> 'a device_scheme \<Rightarrow> error + bool \<times> 'a device_scheme" where
  "push_data parse_data_of data self =
     (case parse_data_of data self of
        Inl e \<Rightarrow> Inl e
      | Inr (changed, self) \<Rightarrow>
          if changed then Inr (True, self)
          else (let (changed, self) = parse_voltage data self in Inr (changed, self)))"

text \<open>
  \<^verbatim>\<open>__init__\<close>. When line 144 calls \<^verbatim>\<open>parse_data\<close>, the object has its \<^verbatim>\<open>_sid\<close>, its
  \<^verbatim>\<open>_name\<close> and the fields that the subclass has set before, and no
  \<^verbatim>\<open>_device_state_attributes\<close> yet: these are created, empty, by line 145. The object at
  line 144 is a record of its own, and the first argument of \<open>init\<close> is the
  \<^verbatim>\<open>parse_data\<close> of the device's class as it acts on such an object; a \<^verbatim>\<open>parse_data\<close>
  that reads or writes the attributes there raises \<^verbatim>\<open>AttributeError\<close>. Line 146 runs
  \<^verbatim>\<open>parse_voltage\<close> on the report, whatever \<^verbatim>\<open>parse_data\<close> returned, and line 147 appends
  the device to the handlers of its identifier.
\<close>

record new_device =
  new_sid :: string
  new_name :: string

text \<open>
  Modelled from the spec: the dictionary \<^verbatim>\<open>ha_devices\<close> belongs to the gateway object of
  the library, which is not part of the sources. By the data model of the spec an
  identifier maps to its handlers in the order of their registration; an identifier
  without a handler maps to the empty list.
\<close>

definition init ::
    "(payload \<Rightarrow> 'a new_device_scheme \<Rightarrow> error + bool \<times> 'a new_device_scheme) \<Rightarrow>
     (string \<Rightarrow> 'a device_scheme list) \<Rightarrow> string \<Rightarrow> payload \<Rightarrow> string \<Rightarrow> 'a \<Rightarrow>
     error + 'a device_scheme \<times> (string \<Rightarrow> 'a device_scheme list)" where
  "init parse_data_new ha_devices dev_sid dev_data name sub =
     (let self = \<lparr>new_sid = dev_sid, new_name = name @ ''_'' @ dev_sid, \<dots> = sub\<rparr>
      in case parse_data_new dev_data self of
           Inl e \<Rightarrow> Inl e
         | Inr (_, self) \<Rightarrow>
             (let self = \<lparr>device_sid = new_sid self, device_name = new_name self,
                          device_state_attributes = Map.empty, \<dots> = new_device.more self\<rparr>;
                  self = snd (parse_voltage dev_data self)
              in Inr (self,
                      ha_devices(device_sid self := ha_devices (device_sid self) @ [self]))))"

subsection \<open>The battery level in Python's arithmetic\<close>

text \<open>
  A number of Python: an integer, or a float, given by the rational that the double
  denotes (infinities and NaN are left out).
\<close>

datatype number = PyInt int | PyFloat rat

text \<open>
  Rounding to the nearest double, a tie to the even significand: \<open>exponent x\<close> is the
  integer \<open>e\<close> with \<open>2\<^sup>e \<le> \<bar>x\<bar> < 2\<^sup>e\<^sup>+\<^sup>1\<close>, found from the bit lengths of numerator and
  denominator, and the significand has 53 bits. The range of the exponent is not bounded:
  the values met below lie between \<open>2\<^sup>-\<^sup>6\<^sup>0\<close> and \<open>2\<^sup>1\<^sup>2\<close>, far from overflow and from the
  subnormal numbers.
\<close>

definition exponent :: "rat \<Rightarrow> int" where
  "exponent x =
     (let (p, q) = quotient_of \<bar>x\<bar>;
          e = bitlen p - bitlen q
      in if 2 powi e \<le> \<bar>x\<bar> then e else e - 1)"

definition float_round :: "rat \<Rightarrow> rat" where
  "float_round x =
     (if x = 0 then 0
      else (let ulp = 2 powi (exponent x - 52) in of_int (round_py (x / ulp)) * ulp))"

text \<open>
  The value of a number, and its conversion to a float where an operator meets a float.
  Comparisons are exact in Python, between integers and floats too. \<^verbatim>\<open>min(a, b)\<close> is
  \<open>b\<close> when \<open>b < a\<close> and \<open>a\<close> otherwise; \<^verbatim>\<open>max(a, b)\<close> is \<open>b\<close> when \<open>b > a\<close> and \<open>a\<close>
  otherwise: the result is one of the two objects, with its type.
\<close>

fun value_of :: "number \<Rightarrow> rat" where
  "value_of (PyInt i) = of_int i"
| "value_of (PyFloat x) = x"

fun to_float :: "number \<Rightarrow> rat" where
  "to_float (PyInt i) = float_round (of_int i)"
| "to_float (PyFloat x) = x"

definition min_py :: "number \<Rightarrow> number \<Rightarrow> number" where
  "min_py a b = (if value_of b < value_of a then b else a)"

definition max_py :: "number \<Rightarrow> number \<Rightarrow> number" where
  "max_py a b = (if value_of a < value_of b then b else a)"

text \<open>
  \<^verbatim>\<open>-\<close>, \<^verbatim>\<open>/\<close> and \<^verbatim>\<open>*\<close>: integers subtract and multiply exactly, \<^verbatim>\<open>/\<close> on two
  integers is the double nearest to the exact quotient, and an operator with a float
  operand rounds its exact result to the nearest double. The divisor of line 180 is 500.
  \<^verbatim>\<open>round\<close> of a float is the nearest integer, a tie to the even one.
\<close>

fun sub_py :: "number \<Rightarrow> number \<Rightarrow> number" where
  "sub_py (PyInt i) (PyInt j) = PyInt (i - j)"
| "sub_py a b = PyFloat (float_round (to_float a - to_float b))"

fun truediv_py :: "number \<Rightarrow> number \<Rightarrow> number" where
  "truediv_py (PyInt i) (PyInt j) = PyFloat (float_round (of_int i / of_int j))"
| "truediv_py a b = PyFloat (float_round (to_float a / to_float b))"

fun mul_py :: "number \<Rightarrow> number \<Rightarrow> number" where
  "mul_py (PyInt i) (PyInt j) = PyInt (i * j)"
| "mul_py a b = PyFloat (float_round (to_float a * to_float b))"

fun round_number :: "number \<Rightarrow> int" where
  "round_number (PyInt i) = i"
| "round_number (PyFloat x) = round_py x"

text \<open>Lines 175 to 181 on a number: the value stored as the battery level.\<close>

definition battery_level :: "number \<Rightarrow> int" where
  "battery_level v =
     (let max_volt = PyInt 3300;
          min_volt = PyInt 2800;
          voltage = min_py v max_volt;
          voltage = max_py voltage min_volt;
          percent = mul_py (truediv_py (sub_py voltage min_volt) (sub_py max_volt min_volt)) (PyInt 100)
      in round_number percent)"

text \<open>\<^verbatim>\<open>parse_voltage\<close> on a report whose readings are numbers.\<close>

definition parse_voltage_py ::
    "(string \<rightharpoonup> number) \<Rightarrow> 'a device_scheme \<Rightarrow> bool \<times> 'a device_scheme" where
  "parse_voltage_py data self =
     (case data ''voltage'' of
        None \<Rightarrow> (False, self)
      | Some v \<Rightarrow>
          (True, self\<lparr>device_state_attributes :=
                       (device_state_attributes self)(ATTR_BATTERY_LEVEL \<mapsto> battery_level v)\<rparr>))"

subsection \<open>Counting effects\<close>

definition discover_calls :: "effect list \<Rightarrow> nat" where
  "discover_calls effects = count_list effects Discover_gateways"

text \<open>
  The rule of the configuration for one gateway, in the words of the data model: a key that
  is present has 16 characters.
\<close>

definition key_valid :: "gateway_config \<Rightarrow> bool" where
  "key_valid gateway = (case key gateway of None \<Rightarrow> True | Some k \<Rightarrow> length k = 16)"

subsection \<open>Sample values\<close>

text \<open>A battery-powered sensor, as the gateway last reported it at 3300 mV.\<close>

definition door_sensor :: device where
  "door_sensor =
     \<lparr>device_sid = ''158d0001a2b3c4'', device_name = ''door_window_sensor_158d0001a2b3c4'',
      device_state_attributes = [ATTR_BATTERY_LEVEL \<mapsto> 100]\<rparr>"

text \<open>A kind of device whose \<^verbatim>\<open>parse_data\<close> finds a change in every report.\<close>

definition parse_data_changed :: "payload \<Rightarrow> device \<Rightarrow> error + bool \<times> device" where
  "parse_data_changed data self = Inr (True, self)"

text \<open>The same kind of device while it is constructed; its \<^verbatim>\<open>parse_data\<close> leaves the attributes alone.\<close>

definition parse_data_changed_new :: "payload \<Rightarrow> new_device \<Rightarrow> error + bool \<times> new_device" where
  "parse_data_changed_new data self = Inr (True, self)"

text \<open>No device is registered with the gateway.\<close>

definition no_devices :: "string \<Rightarrow> device list" where
  "no_devices = (\<lambda>_. [])"

text \<open>A kind of device whose \<^verbatim>\<open>parse_data\<close> never finds a change.\<close>

definition parse_data_unchanged :: "payload \<Rightarrow> device \<Rightarrow> error + bool \<times> device" where
  "parse_data_unchanged data self = Inr (False, self)"

text \<open>Three live gateways, the last two under one \<^verbatim>\<open>sid\<close>.\<close>

definition hubs :: "(string \<times> xiaomi_gateway) list" where
  "hubs = [(''192.168.1.10'', \<lparr>gateway_sid = ''f0b429aa0001''\<rparr>),
           (''192.168.1.11'', \<lparr>gateway_sid = ''f0b429aa0002''\<rparr>),
           (''192.168.1.12'', \<lparr>gateway_sid = ''f0b429aa0002''\<rparr>)]"

text \<open>A library that never finds a gateway.\<close>

definition silent_lib :: "unit py_xiaomi_gateway" where
  "silent_lib = \<lparr>construct = (\<lambda>_ _. ()), discover_gateways = (\<lambda>c. c), gateways = (\<lambda>_. [])\<rparr>"

text \<open>
  A library that finds one more of the gateways \<^const>\<open>hubs\<close> in each call of
  \<^verbatim>\<open>discover_gateways\<close>, up to a given number of them: its state is the number found.
\<close>

definition finding_lib :: "nat \<Rightarrow> nat py_xiaomi_gateway" where
  "finding_lib present =
     \<lparr>construct = (\<lambda>_ _. 0), discover_gateways = (\<lambda>c. min (Suc c) present),
      gateways = (\<lambda>c. take c hubs)\<rparr>"

definition two_gateways :: config where
  "two_gateways =
     \<lparr>conf_gateways = [\<lparr>sid = Some ''F0:B4:29:AA:00:01'', key = Some ''0123456789abcdef''\<rparr>,
                       \<lparr>sid = None, key = None\<rparr>],
      conf_interface = ''any'', conf_discovery_retry = 3\<rparr>"

definition no_gateways :: config where
  "no_gateways = \<lparr>conf_gateways = [], conf_interface = ''any'', conf_discovery_retry = 3\<rparr>"

definition short_key :: config where
  "short_key =
     \<lparr>conf_gateways = [\<lparr>sid = None, key = None\<rparr>, \<lparr>sid = Some ''f0b429aa0002'', key = Some ''secret''\<rparr>],
      conf_interface = ''any'', conf_discovery_retry = 3\<rparr>"

section \<open>Properties\<close>

subsection \<open>Facts about the strings\<close>

lemma of_char_lower_char:
  "(of_char (lower_char c) :: nat) =
     (if 65 \<le> (of_char c :: nat) \<and> (of_char c :: nat) \<le> 90 then of_char c + 32 else of_char c)"
  by (simp add: lower_char_def Let_def)

lemma lower_char_idem: "lower_char (lower_char c) = lower_char c"
proof -
  have "(of_char (lower_char (lower_char c)) :: nat) = of_char (lower_char c)"
    by (simp add: of_char_lower_char)
  then show ?thesis by (simp only: of_char_eq_iff)
qed

lemma lower_char_colon: "lower_char c = CHR '':'' \<longleftrightarrow> c = CHR '':''"
proof -
  have "(of_char (lower_char c) :: nat) = of_char (CHR '':'') \<longleftrightarrow> (of_char c :: nat) = of_char (CHR '':'')"
    by (simp add: of_char_lower_char)
  then show ?thesis by (simp only: of_char_eq_iff)
qed

lemma replace_colon_filter: "replace (CHR '':'') [] s = filter (\<lambda>c. c \<noteq> CHR '':'') s"
  by (induction s) (simp_all add: replace_def)

lemma normalize_sid_eq: "normalize_sid s = map lower_char (filter (\<lambda>c. c \<noteq> CHR '':'') s)"
  by (simp add: normalize_sid_def lower_def replace_colon_filter)

lemma filter_colon_lower:
  "filter (\<lambda>c. c \<noteq> CHR '':'') (map lower_char s) = map lower_char (filter (\<lambda>c. c \<noteq> CHR '':'') s)"
  by (induction s) (simp_all add: lower_char_colon)

lemma upper_not_lower_char: "c \<in> set ''ABCDEFGHIJKLMNOPQRSTUVWXYZ'' \<Longrightarrow> lower_char d \<noteq> c"
proof
  assume c: "c \<in> set ''ABCDEFGHIJKLMNOPQRSTUVWXYZ''" and "lower_char d = c"
  then have "(of_char (lower_char d) :: nat) = of_char c" by simp
  moreover from c have "65 \<le> (of_char c :: nat) \<and> (of_char c :: nat) \<le> 90" by auto
  ultimately show False by (simp add: of_char_lower_char split: if_splits)
qed

lemma normalize_no_upper: "set (normalize_sid s) \<inter> set ''ABCDEFGHIJKLMNOPQRSTUVWXYZ'' = {}"
  unfolding normalize_sid_eq using upper_not_lower_char by fastforce

lemma normalize_sid_idem: "normalize_sid (normalize_sid s) = normalize_sid s"
  by (simp add: normalize_sid_eq filter_colon_lower lower_char_idem)

subsection \<open>Facts about the rounding\<close>

lemma round_py_fifths: "round_py (of_int k / 5) = (k + 2) div 5"
proof -
  have fl: "\<lfloor>(of_int k / 5 :: rat)\<rfloor> = k div 5"
    using floor_divide_of_int_eq [of k 5, where ?'a = rat] by simp
  have k: "k = 5 * (k div 5) + k mod 5" by simp
  have "(of_int k :: rat) = 5 * of_int (k div 5) + of_int (k mod 5)"
    by (metis k of_int_add of_int_mult of_int_numeral)
  then have d: "(of_int k / 5 :: rat) - of_int (k div 5) = of_int (k mod 5) / 5"
    by (simp add: field_simps)
  have m: "k mod 5 = 0 \<or> k mod 5 = 1 \<or> k mod 5 = 2 \<or> k mod 5 = 3 \<or> k mod 5 = 4"
    by presburger
  have r: "(k + 2) div 5 = (if k mod 5 < 3 then k div 5 else k div 5 + 1)"
    by presburger
  from m show ?thesis
    unfolding round_py_def Let_def fl d r by auto
qed

lemma round_fifths: "round (of_int k / 5 :: rat) = (k + 2) div 5"
proof -
  have "(of_int k / 5 + 1 / 2 :: rat) = of_int (2 * k + 5) / of_int 10"
    by (simp add: field_simps)
  then have "round (of_int k / 5 :: rat) = (2 * k + 5) div 10"
    unfolding round_def by (simp only: floor_divide_of_int_eq)
  then show ?thesis by presburger
qed

subsection \<open>Facts about the battery level\<close>

lemma percent_eq:
  "(of_int (k - 2800) / of_int (3300 - 2800)) * 100 = (of_int (k - 2800) / 5 :: rat)"
  by simp

lemma parse_voltage_absent:
  "data ''voltage'' = None \<Longrightarrow> parse_voltage data self = (False, self)"
  by (simp add: parse_voltage_def)

lemma parse_voltage_present:
  "data ''voltage'' = Some v \<Longrightarrow>
   parse_voltage data self =
     (True, self\<lparr>device_state_attributes :=
                   (device_state_attributes self)
                     (ATTR_BATTERY_LEVEL \<mapsto>
                        round_py ((of_int (max (min v 3300) 2800 - 2800) / of_int (3300 - 2800)) * 100))\<rparr>)"
  by (simp add: parse_voltage_def Let_def)

lemma parse_voltage_level:
  assumes "data ''voltage'' = Some v"
  shows "parse_voltage data self =
     (True, self\<lparr>device_state_attributes :=
                   (device_state_attributes self)
                     (ATTR_BATTERY_LEVEL \<mapsto> (max (min v 3300) 2800 - 2800 + 2) div 5)\<rparr>)"
proof -
  have "parse_voltage data self =
     (True, self\<lparr>device_state_attributes :=
                   (device_state_attributes self)
                     (ATTR_BATTERY_LEVEL \<mapsto>
                        round_py ((of_int (max (min v 3300) 2800 - 2800) / of_int (3300 - 2800)) * 100))\<rparr>)"
    using assms by (rule parse_voltage_present)
  then show ?thesis
    by (simp only: percent_eq round_py_fifths)
qed


text \<open>
  C5. Without a voltage in the report, \<^const>\<open>parse_voltage\<close> returns \<open>False\<close> and leaves
  the device as it is. With a voltage it returns \<open>True\<close>, also when the report is parsed a
  second time and the battery level it stores is the one already there.
\<close>

theorem parse_voltage_change_signal:
  "(data ''voltage'' = None \<longrightarrow> parse_voltage data self = (False, self))
   \<and> (data ''voltage'' = Some v \<longrightarrow>
        fst (parse_voltage data self) = True
        \<and> parse_voltage data (snd (parse_voltage data self)) = (True, snd (parse_voltage data self)))"
proof (intro conjI impI)
  assume "data ''voltage'' = None"
  then show "parse_voltage data self = (False, self)" by (rule parse_voltage_absent)
next
  assume v: "data ''voltage'' = Some v"
  show "fst (parse_voltage data self) = True"
    by (simp add: parse_voltage_level [of data v, OF v])
  show "parse_voltage data (snd (parse_voltage data self)) = (True, snd (parse_voltage data self))"
    by (simp add: parse_voltage_level [of data v, OF v])
qed

theorem parse_voltage_change_signal_witness:
  "parse_voltage [''temperature'' \<mapsto> 2150] door_sensor = (False, door_sensor)
   \<and> parse_voltage [''voltage'' \<mapsto> 3300] door_sensor = (True, door_sensor)"
  using parse_voltage_change_signal [of "[''temperature'' \<mapsto> 2150]" door_sensor 0]
        parse_voltage_change_signal [of "[''voltage'' \<mapsto> 3300]" door_sensor 3300]
  by (simp add: parse_voltage_level door_sensor_def)



text \<open>
  C7. The normalisation of an identifier removes every \<open>:\<close> and maps every letter to lower
  case: no \<open>:\<close> and no capital letter is left. Normalising twice is normalising once, and
  an identifier has the normal form of itself without the \<open>:\<close>, of itself in lower case,
  and of both.
\<close>

theorem normalize_sid_canonical:
  "normalize_sid s = map lower_char (filter (\<lambda>c. c \<noteq> CHR '':'') s)
   \<and> CHR '':'' \<notin> set (normalize_sid s)
   \<and> set (normalize_sid s) \<inter> set ''ABCDEFGHIJKLMNOPQRSTUVWXYZ'' = {}
   \<and> normalize_sid (normalize_sid s) = normalize_sid s
   \<and> normalize_sid (replace (CHR '':'') [] s) = normalize_sid s
   \<and> normalize_sid (lower s) = normalize_sid s
   \<and> normalize_sid (lower (replace (CHR '':'') [] s)) = normalize_sid s"
proof (intro conjI)
  show "normalize_sid s = map lower_char (filter (\<lambda>c. c \<noteq> CHR '':'') s)"
    by (rule normalize_sid_eq)
  show "CHR '':'' \<notin> set (normalize_sid s)"
    using lower_char_colon by (fastforce simp: normalize_sid_eq)
  show "set (normalize_sid s) \<inter> set ''ABCDEFGHIJKLMNOPQRSTUVWXYZ'' = {}"
    by (rule normalize_no_upper)
  show "normalize_sid (normalize_sid s) = normalize_sid s"
    by (rule normalize_sid_idem)
  show "normalize_sid (replace (CHR '':'') [] s) = normalize_sid s"
    by (simp add: normalize_sid_eq replace_colon_filter)
  show "normalize_sid (lower s) = normalize_sid s"
    by (simp add: normalize_sid_eq lower_def filter_colon_lower lower_char_idem)
  show "normalize_sid (lower (replace (CHR '':'') [] s)) = normalize_sid s"
    by (simp add: normalize_sid_eq lower_def replace_colon_filter filter_colon_lower lower_char_idem)
qed

theorem normalize_sid_canonical_witness:
  "normalize_sid ''F0:B4:29:aa:00:01'' = ''f0b429aa0001''
   \<and> normalize_sid ''f0b429aa0001'' = ''f0b429aa0001''
   \<and> normalize_sid (normalize_sid ''F0:B4:29:aa:00:01'') = normalize_sid ''F0:B4:29:aa:00:01''"
proof -
  have "normalize_sid ''F0:B4:29:aa:00:01'' = ''f0b429aa0001''"
    by code_simp
  moreover have "normalize_sid ''f0b429aa0001'' = ''f0b429aa0001''"
    by code_simp
  ultimately show ?thesis
    using normalize_sid_canonical [of "''F0:B4:29:aa:00:01''"] by simp
qed

subsection \<open>Facts about the ringtone services\<close>

lemma write_to_gateway_find:
  "write_to_gateway items gw r =
     (case find (\<lambda>item. gateway_sid (snd item) = gw) items of
        None \<Rightarrow> [Log (Error_unknown_gateway_sid gw)]
      | Some item \<Rightarrow> [Write_to_hub (fst item) (gateway_sid (snd item)) r])"
  by (induction items gw r rule: write_to_gateway.induct) simp_all

lemma writes_write_to_gateway:
  "writes (write_to_gateway items gw r) =
     (case find (\<lambda>item. gateway_sid (snd item) = gw) items of
        None \<Rightarrow> []
      | Some item \<Rightarrow> [(fst item, gw, r)])"
  by (induction items gw r rule: write_to_gateway.induct) simp_all

lemma find_no_match:
  "find (\<lambda>item. gateway_sid (snd item) = gw) items = None
     \<longleftrightarrow> gw \<notin> gateway_sid ` snd ` set items"
  by (force simp: find_None_iff image_iff)

lemma find_match:
  "find (\<lambda>item. gateway_sid (snd item) = gw) items = Some item
     \<Longrightarrow> item \<in> set items \<and> gateway_sid (snd item) = gw"
  by (auto simp: find_Some_iff)

lemma writes_play:
  "writes (play_ringtone_service items call) =
     (case (ringtone_id call, gw_sid call) of
        (Some ring_id, Some gw) \<Rightarrow>
          if ring_id = 9 \<or> ring_id = - 5 then []
          else (case find (\<lambda>item. gateway_sid (snd item) = gw) items of
                  None \<Rightarrow> []
                | Some item \<Rightarrow> [(fst item, gw, \<lparr>mid = ring_id, vol = ringtone_vol call\<rparr>)])
      | _ \<Rightarrow> [])"
  by (auto simp: play_ringtone_service_def writes_write_to_gateway
           split: option.splits)

lemma writes_stop:
  "writes (stop_ringtone_service items call) =
     (case gw_sid call of
        None \<Rightarrow> []
      | Some gw \<Rightarrow>
          (case find (\<lambda>item. gateway_sid (snd item) = gw) items of
             None \<Rightarrow> []
           | Some item \<Rightarrow> [(fst item, gw, \<lparr>mid = 10000, vol = None\<rparr>)]))"
  by (auto simp: stop_ringtone_service_def writes_write_to_gateway split: option.splits)

lemma find_first_match:
  "\<forall>item \<in> set before. gateway_sid (snd item) \<noteq> gw \<Longrightarrow> gateway_sid gateway = gw \<Longrightarrow>
   find (\<lambda>item. gateway_sid (snd item) = gw) (before @ (ip, gateway) # rest) = Some (ip, gateway)"
  by (induction before) auto

lemma written_gateway:
  assumes "w \<in> set (writes (play_ringtone_service items call))
              \<union> set (writes (stop_ringtone_service items call))"
  shows "\<exists>gw item. gw_sid call = Some gw
           \<and> find (\<lambda>item. gateway_sid (snd item) = gw) items = Some item
           \<and> fst w = fst item \<and> fst (snd w) = gw"
proof (cases "gw_sid call")
  case None
  with assms show ?thesis
    by (simp add: writes_play writes_stop split: option.splits)
next
  case (Some gw)
  show ?thesis
  proof (cases "find (\<lambda>item. gateway_sid (snd item) = gw) items")
    case None
    with Some assms show ?thesis
      by (simp add: writes_play writes_stop split: option.splits)
  next
    case (Some item)
    with \<open>gw_sid call = Some gw\<close> assms
    have "fst w = fst item \<and> fst (snd w) = gw"
      by (auto simp: writes_play writes_stop split: option.splits if_splits)
    with Some \<open>gw_sid call = Some gw\<close> show ?thesis by blast
  qed
qed

text \<open>
  C1. The source refuses the ringtones 9 and \<open>14 - 19 = -5\<close>, not 9 and 14 to 19: a call
  with ringtone 14 or 19 and the \<^verbatim>\<open>sid\<close> of a live gateway is not refused, and the
  ringtone is written to the gateway; ringtone 9 is refused.
\<close>

theorem play_ringtone_reserved_id_written:
  "play_ringtone_service hubs
     \<lparr>ringtone_id = Some 14, gw_sid = Some ''f0b429aa0001'', ringtone_vol = None\<rparr>
     = [Write_to_hub ''192.168.1.10'' ''f0b429aa0001'' \<lparr>mid = 14, vol = None\<rparr>]
   \<and> play_ringtone_service hubs
     \<lparr>ringtone_id = Some 19, gw_sid = Some ''f0b429aa0001'', ringtone_vol = Some 50\<rparr>
     = [Write_to_hub ''192.168.1.10'' ''f0b429aa0001'' \<lparr>mid = 19, vol = Some 50\<rparr>]
   \<and> play_ringtone_service hubs
     \<lparr>ringtone_id = Some 9, gw_sid = Some ''f0b429aa0001'', ringtone_vol = None\<rparr>
     = [Log (Error_mid_not_defined 9)]"
  by (simp add: play_ringtone_service_def hubs_def)

text \<open>
  C8. For \<^const>\<open>stop_ringtone_service\<close> with a \<^verbatim>\<open>gw_sid\<close>: when a live gateway has this
  \<^verbatim>\<open>sid\<close>, the only effect is one write of \<open>mid = 10000\<close>, without a volume, to such a
  gateway; when none has, the only effect is the logged error, and nothing is written.
  \<^const>\<open>play_ringtone_service\<close> with a \<^verbatim>\<open>gw_sid\<close> that no live gateway has writes
  nothing, and logs the same error when the ringtone is given and not refused.
\<close>

theorem ringtone_unknown_gateway:
  "(gw_sid call = Some gw \<and> gw \<in> gateway_sid ` snd ` set items \<longrightarrow>
      (\<exists>ip gateway. (ip, gateway) \<in> set items \<and> gateway_sid gateway = gw
         \<and> stop_ringtone_service items call
              = [Write_to_hub ip gw \<lparr>mid = 10000, vol = None\<rparr>]))
   \<and> (gw_sid call = Some gw \<and> gw \<notin> gateway_sid ` snd ` set items \<longrightarrow>
        stop_ringtone_service items call = [Log (Error_unknown_gateway_sid gw)]
        \<and> writes (stop_ringtone_service items call) = []
        \<and> writes (play_ringtone_service items call) = []
        \<and> (ringtone_id call = Some ring_id \<and> ring_id \<noteq> 9 \<and> ring_id \<noteq> - 5 \<longrightarrow>
             play_ringtone_service items call = [Log (Error_unknown_gateway_sid gw)]))"
proof (intro conjI impI)
  assume a: "gw_sid call = Some gw \<and> gw \<in> gateway_sid ` snd ` set items"
  then have "find (\<lambda>item. gateway_sid (snd item) = gw) items \<noteq> None"
    by (simp add: find_no_match)
  then obtain item where f: "find (\<lambda>item. gateway_sid (snd item) = gw) items = Some item"
    by blast
  from find_match [OF f] have "(fst item, snd item) \<in> set items" "gateway_sid (snd item) = gw"
    by simp_all
  moreover have "stop_ringtone_service items call
      = [Write_to_hub (fst item) gw \<lparr>mid = 10000, vol = None\<rparr>]"
    using a f \<open>gateway_sid (snd item) = gw\<close>
    by (simp add: stop_ringtone_service_def write_to_gateway_find)
  ultimately show "\<exists>ip gateway. (ip, gateway) \<in> set items \<and> gateway_sid gateway = gw
         \<and> stop_ringtone_service items call = [Write_to_hub ip gw \<lparr>mid = 10000, vol = None\<rparr>]"
    by blast
next
  assume a: "gw_sid call = Some gw \<and> gw \<notin> gateway_sid ` snd ` set items"
  then have f: "find (\<lambda>item. gateway_sid (snd item) = gw) items = None"
    by (simp add: find_no_match)
  show "stop_ringtone_service items call = [Log (Error_unknown_gateway_sid gw)]"
    using a f by (simp add: stop_ringtone_service_def write_to_gateway_find)
  show "writes (stop_ringtone_service items call) = []"
    using a f by (simp add: writes_stop)
  show "writes (play_ringtone_service items call) = []"
    using a f by (simp add: writes_play split: option.splits)
  assume "ringtone_id call = Some ring_id \<and> ring_id \<noteq> 9 \<and> ring_id \<noteq> - 5"
  then show "play_ringtone_service items call = [Log (Error_unknown_gateway_sid gw)]"
    using a f by (simp add: play_ringtone_service_def write_to_gateway_find split: option.splits)
qed

theorem ringtone_unknown_gateway_witness:
  "stop_ringtone_service hubs \<lparr>ringtone_id = None, gw_sid = Some ''f0b429aa0001'', ringtone_vol = None\<rparr>
     = [Write_to_hub ''192.168.1.10'' ''f0b429aa0001'' \<lparr>mid = 10000, vol = None\<rparr>]
   \<and> stop_ringtone_service hubs \<lparr>ringtone_id = None, gw_sid = Some ''f0b429aa0009'', ringtone_vol = None\<rparr>
     = [Log (Error_unknown_gateway_sid ''f0b429aa0009'')]
   \<and> play_ringtone_service hubs \<lparr>ringtone_id = Some 3, gw_sid = Some ''f0b429aa0009'', ringtone_vol = None\<rparr>
     = [Log (Error_unknown_gateway_sid ''f0b429aa0009'')]"
  using ringtone_unknown_gateway
          [of "\<lparr>ringtone_id = None, gw_sid = Some ''f0b429aa0001'', ringtone_vol = None\<rparr>"
              "''f0b429aa0001''" hubs 3]
        ringtone_unknown_gateway
          [of "\<lparr>ringtone_id = None, gw_sid = Some ''f0b429aa0009'', ringtone_vol = None\<rparr>"
              "''f0b429aa0009''" hubs 3]
        ringtone_unknown_gateway
          [of "\<lparr>ringtone_id = Some 3, gw_sid = Some ''f0b429aa0009'', ringtone_vol = None\<rparr>"
              "''f0b429aa0009''" hubs 3]
  by (auto simp: hubs_def)

text \<open>
  C10. A call of either service writes at most once. When the live gateways are
  \<open>before\<close>, then a gateway with the requested \<^verbatim>\<open>sid\<close> under the key \<open>ip\<close>, then
  \<open>rest\<close>, and no gateway of \<open>before\<close> has this \<^verbatim>\<open>sid\<close>, the write goes to the gateway
  under \<open>ip\<close>, whatever \<open>rest\<close> holds. Every write goes to a live gateway that has the
  requested \<^verbatim>\<open>sid\<close>.
\<close>

theorem ringtone_single_write:
  "length (writes (play_ringtone_service items call)) \<le> 1
   \<and> length (writes (stop_ringtone_service items call)) \<le> 1
   \<and> (gw_sid call = Some gw \<and> items = before @ (ip, gateway) # rest
        \<and> gateway_sid gateway = gw \<and> (\<forall>item \<in> set before. gateway_sid (snd item) \<noteq> gw) \<longrightarrow>
          writes (stop_ringtone_service items call) = [(ip, gw, \<lparr>mid = 10000, vol = None\<rparr>)]
          \<and> (ringtone_id call = Some ring_id \<and> ring_id \<noteq> 9 \<and> ring_id \<noteq> - 5 \<longrightarrow>
               writes (play_ringtone_service items call)
                 = [(ip, gw, \<lparr>mid = ring_id, vol = ringtone_vol call\<rparr>)]))
   \<and> (\<forall>w \<in> set (writes (play_ringtone_service items call))
              \<union> set (writes (stop_ringtone_service items call)).
        gw_sid call = Some (fst (snd w))
        \<and> (\<exists>gateway. (fst w, gateway) \<in> set items \<and> gateway_sid gateway = fst (snd w)))"
proof (intro conjI impI ballI)
  show "length (writes (play_ringtone_service items call)) \<le> 1"
    by (simp add: writes_play split: option.splits)
  show "length (writes (stop_ringtone_service items call)) \<le> 1"
    by (simp add: writes_stop split: option.splits)
next
  assume a: "gw_sid call = Some gw \<and> items = before @ (ip, gateway) # rest
        \<and> gateway_sid gateway = gw \<and> (\<forall>item \<in> set before. gateway_sid (snd item) \<noteq> gw)"
  then have f: "find (\<lambda>item. gateway_sid (snd item) = gw) items = Some (ip, gateway)"
    by (simp add: find_first_match)
  show "writes (stop_ringtone_service items call) = [(ip, gw, \<lparr>mid = 10000, vol = None\<rparr>)]"
    using a f by (simp add: writes_stop)
  assume "ringtone_id call = Some ring_id \<and> ring_id \<noteq> 9 \<and> ring_id \<noteq> - 5"
  then show "writes (play_ringtone_service items call)
                 = [(ip, gw, \<lparr>mid = ring_id, vol = ringtone_vol call\<rparr>)]"
    using a f by (simp add: writes_play)
next
  fix w
  assume w: "w \<in> set (writes (play_ringtone_service items call))
              \<union> set (writes (stop_ringtone_service items call))"
  from written_gateway [OF w] obtain gw item where g: "gw_sid call = Some gw"
      and f: "find (\<lambda>item. gateway_sid (snd item) = gw) items = Some item"
      and e: "fst w = fst item" "fst (snd w) = gw"
    by blast
  from find_match [OF f] have "(fst item, snd item) \<in> set items" "gateway_sid (snd item) = gw"
    by simp_all
  with g e show "gw_sid call = Some (fst (snd w))" by simp
  from \<open>(fst item, snd item) \<in> set items\<close> \<open>gateway_sid (snd item) = gw\<close> e
  have "(fst w, snd item) \<in> set items \<and> gateway_sid (snd item) = fst (snd w)"
    by simp
  then show "\<exists>gateway. (fst w, gateway) \<in> set items \<and> gateway_sid gateway = fst (snd w)"
    by (rule exI)
qed

theorem ringtone_single_write_witness:
  "writes (stop_ringtone_service hubs
             \<lparr>ringtone_id = None, gw_sid = Some ''f0b429aa0002'', ringtone_vol = None\<rparr>)
     = [(''192.168.1.11'', ''f0b429aa0002'', \<lparr>mid = 10000, vol = None\<rparr>)]
   \<and> writes (play_ringtone_service hubs
             \<lparr>ringtone_id = Some 3, gw_sid = Some ''f0b429aa0002'', ringtone_vol = Some 20\<rparr>)
     = [(''192.168.1.11'', ''f0b429aa0002'', \<lparr>mid = 3, vol = Some 20\<rparr>)]"
  using ringtone_single_write
          [of hubs "\<lparr>ringtone_id = None, gw_sid = Some ''f0b429aa0002'', ringtone_vol = None\<rparr>"
              "''f0b429aa0002''" "[(''192.168.1.10'', \<lparr>gateway_sid = ''f0b429aa0001''\<rparr>)]"
              "''192.168.1.11''" "\<lparr>gateway_sid = ''f0b429aa0002''\<rparr>"
              "[(''192.168.1.12'', \<lparr>gateway_sid = ''f0b429aa0002''\<rparr>)]" 3]
        ringtone_single_write
          [of hubs "\<lparr>ringtone_id = Some 3, gw_sid = Some ''f0b429aa0002'', ringtone_vol = Some 20\<rparr>"
              "''f0b429aa0002''" "[(''192.168.1.10'', \<lparr>gateway_sid = ''f0b429aa0001''\<rparr>)]"
              "''192.168.1.11''" "\<lparr>gateway_sid = ''f0b429aa0002''\<rparr>"
              "[(''192.168.1.12'', \<lparr>gateway_sid = ''f0b429aa0002''\<rparr>)]" 3]
  by (simp add: hubs_def)

subsection \<open>Facts about the set-up\<close>

lemma check_gateways_ok:
  "fst (check_gateways gws) = list_all key_valid gws"
  by (induction gws) (auto simp: key_valid_def Let_def split: option.splits prod.splits)

lemma check_gateways_length:
  "length (fst (snd (check_gateways gws))) = length gws"
  by (induction gws) (auto simp: Let_def split: option.splits prod.splits)

lemma check_gateways_invalid:
  "\<not> fst (check_gateways gws) \<Longrightarrow> \<exists>k. Log (Error_invalid_key k) \<in> set (snd (snd (check_gateways gws)))"
  by (induction gws) (auto simp: Let_def split: option.splits prod.splits if_splits)

lemma check_gateways_no_discovery:
  "discover_calls (snd (snd (check_gateways gws))) = 0"
  by (induction gws) (auto simp: discover_calls_def Let_def split: option.splits prod.splits)

lemma check_gateways_no_key:
  "list_all (\<lambda>g. key g = None) gws \<Longrightarrow>
   check_gateways gws =
     (True, map (\<lambda>g. g\<lparr>sid := map_option normalize_sid (sid g)\<rparr>) gws,
      replicate (length gws) (Log Warning_key_not_provided))"
  by (induction gws) (auto simp: Let_def split: option.splits prod.splits)

lemma setup_invalid:
  "\<not> fst (check_gateways (conf_gateways cfg)) \<Longrightarrow>
   setup_xiaomi lib cfg = (False, None, snd (snd (check_gateways (conf_gateways cfg))))"
  by (cases "check_gateways (conf_gateways cfg)") (simp add: setup_xiaomi_def)

lemma discover_calls_replicate [simp]:
  "discover_calls (replicate n Discover_gateways) = n"
  by (induction n) (simp_all add: discover_calls_def)

lemma discover_calls_append [simp]:
  "discover_calls (xs @ ys) = discover_calls xs + discover_calls ys"
  by (induction xs) (simp_all add: discover_calls_def)

lemma discover_run:
  "\<exists>n \<le> retry.
      discover lib expected retry c
        = ((discover_gateways lib ^^ n) c, replicate n Discover_gateways)
      \<and> (0 < retry \<longrightarrow> 0 < n)
      \<and> (n < retry \<longrightarrow> expected \<le> length (gateways lib ((discover_gateways lib ^^ n) c)))
      \<and> (\<forall>i. 0 < i \<and> i < n \<longrightarrow>
             length (gateways lib ((discover_gateways lib ^^ i) c)) < expected)"
proof (induction retry arbitrary: c)
  case 0
  show ?case by simp
next
  case (Suc retry)
  let ?c1 = "discover_gateways lib c"
  show ?case
  proof (cases "expected \<le> length (gateways lib ?c1)")
    case True
    then have "discover lib expected (Suc retry) c = ((discover_gateways lib ^^ 1) c, replicate 1 Discover_gateways)"
      by simp
    moreover have "expected \<le> length (gateways lib ((discover_gateways lib ^^ 1) c))"
      using True by simp
    ultimately show ?thesis
      by (intro exI [of _ 1]) (simp del: discover.simps)
  next
    case False
    from Suc.IH [of ?c1] obtain n where n: "n \<le> retry"
      and run: "discover lib expected retry ?c1
                  = ((discover_gateways lib ^^ n) ?c1, replicate n Discover_gateways)"
      and stop: "n < retry \<longrightarrow> expected \<le> length (gateways lib ((discover_gateways lib ^^ n) ?c1))"
      and before: "\<forall>i. 0 < i \<and> i < n \<longrightarrow>
             length (gateways lib ((discover_gateways lib ^^ i) ?c1)) < expected"
      by blast
    have pow: "\<And>i. (discover_gateways lib ^^ Suc i) c = (discover_gateways lib ^^ i) ?c1"
      by (simp add: funpow_swap1)
    have "discover lib expected (Suc retry) c
            = ((discover_gateways lib ^^ Suc n) c, replicate (Suc n) Discover_gateways)"
      using False run by (simp add: funpow_swap1)
    moreover have "Suc n < Suc retry \<longrightarrow>
        expected \<le> length (gateways lib ((discover_gateways lib ^^ Suc n) c))"
      using stop by (simp add: funpow_swap1)
    moreover have "\<forall>i. 0 < i \<and> i < Suc n \<longrightarrow>
             length (gateways lib ((discover_gateways lib ^^ i) c)) < expected"
    proof (intro allI impI)
      fix i assume i: "0 < i \<and> i < Suc n"
      then obtain j where j: "i = Suc j" by (cases i) auto
      show "length (gateways lib ((discover_gateways lib ^^ i) c)) < expected"
      proof (cases j)
        case 0
        with j False show ?thesis by simp
      next
        case (Suc j')
        with i j have "0 < j \<and> j < n" by simp
        with before have "length (gateways lib ((discover_gateways lib ^^ j) ?c1)) < expected"
          by blast
        with j show ?thesis by (simp only: pow)
      qed
    qed
    ultimately show ?thesis
      using n by (intro exI [of _ "Suc n"]) (simp del: discover.simps funpow.simps)
  qed
qed

lemma setup_valid:
  assumes "check_gateways (conf_gateways cfg) = (True, gws, logged)"
    and "discover lib (length gws) (conf_discovery_retry cfg) (construct lib gws (conf_interface cfg))
           = (c, discovered)"
  shows "setup_xiaomi lib cfg =
     (if gateways lib c = []
      then (False, Some c, logged @ discovered @ [Log Error_no_gateway_discovered])
      else (True, Some c,
            logged @ discovered @ [Listen, Listen_once_stop]
              @ map Load_platform XIAOMI_COMPONENTS
              @ [Register ''play_ringtone'', Register ''stop_ringtone'']))"
  using assms by (simp add: setup_xiaomi_def)

lemma setup_tail_no_discovery:
  "discover_calls [Listen, Listen_once_stop] = 0"
  "discover_calls (map Load_platform XIAOMI_COMPONENTS) = 0"
  "discover_calls [Register ''play_ringtone'', Register ''stop_ringtone''] = 0"
  "discover_calls [Log Error_no_gateway_discovered] = 0"
  by (simp_all add: discover_calls_def XIAOMI_COMPONENTS_def)

lemma two_gateways_checked:
  "check_gateways (conf_gateways two_gateways) =
     (True,
      [\<lparr>sid = Some ''f0b429aa0001'', key = Some ''0123456789abcdef''\<rparr>, \<lparr>sid = None, key = None\<rparr>],
      [Log Warning_key_not_provided])"
  by code_simp

lemma finding_lib_iterate:
  "(discover_gateways (finding_lib present) ^^ i) (construct (finding_lib present) gws iface)
     = min i present"
  by (induction i) (simp_all add: finding_lib_def)

lemma finding_lib_known:
  "length (gateways (finding_lib present)
             ((discover_gateways (finding_lib present) ^^ i)
                (construct (finding_lib present) gws iface)))
     = min (min i present) 3"
  unfolding finding_lib_iterate by (simp add: finding_lib_def hubs_def)

text \<open>
  C3, as the code has it. When the keys are valid, the set-up calls
  \<^verbatim>\<open>discover_gateways\<close> some \<open>n\<close> times, \<open>n\<close> at most \<^verbatim>\<open>discovery_retry\<close>, and the
  library object is then in the state that \<open>n\<close> calls lead to. The loop stops before
  \<^verbatim>\<open>discovery_retry\<close> calls only when as many gateways are known as are configured, and
  after no earlier call were that many known. The set-up succeeds exactly when a gateway
  is known after the loop, be it fewer than configured; otherwise the last effect is the
  logged error. With a library that never finds a gateway and at least one configured
  gateway, the number of calls is \<^verbatim>\<open>discovery_retry\<close>, and the set-up fails when this is
  not zero.
\<close>

theorem discovery_loop_bounded:
  assumes "check_gateways (conf_gateways cfg) = (True, gws, logged)"
  shows "\<exists>n \<le> conf_discovery_retry cfg.
           length gws = length (conf_gateways cfg)
         \<and> discover_calls (snd (snd (setup_xiaomi lib cfg))) = n
         \<and> (let c0 = construct lib gws (conf_interface cfg);
                 c = (discover_gateways lib ^^ n) c0
             in fst (snd (setup_xiaomi lib cfg)) = Some c
              \<and> (n < conf_discovery_retry cfg \<longrightarrow> length gws \<le> length (gateways lib c))
              \<and> (\<forall>i. 0 < i \<and> i < n \<longrightarrow>
                     length (gateways lib ((discover_gateways lib ^^ i) c0)) < length gws)
              \<and> (fst (setup_xiaomi lib cfg) \<longleftrightarrow> gateways lib c \<noteq> [])
              \<and> (gateways lib c = [] \<longrightarrow>
                     last (snd (snd (setup_xiaomi lib cfg))) = Log Error_no_gateway_discovered)
              \<and> ((\<forall>c'. gateways lib (discover_gateways lib c') = []) \<and> gws \<noteq> [] \<longrightarrow>
                     n = conf_discovery_retry cfg
                     \<and> (0 < conf_discovery_retry cfg \<longrightarrow> \<not> fst (setup_xiaomi lib cfg))))"
proof -
  let ?c0 = "construct lib gws (conf_interface cfg)"
  let ?R = "conf_discovery_retry cfg"
  from discover_run [of ?R lib "length gws" ?c0]
  obtain n where H: "n \<le> ?R
      \<and> discover lib (length gws) ?R ?c0
            = ((discover_gateways lib ^^ n) ?c0, replicate n Discover_gateways)
      \<and> (0 < ?R \<longrightarrow> 0 < n)
      \<and> (n < ?R \<longrightarrow> length gws \<le> length (gateways lib ((discover_gateways lib ^^ n) ?c0)))
      \<and> (\<forall>i. 0 < i \<and> i < n \<longrightarrow>
             length (gateways lib ((discover_gateways lib ^^ i) ?c0)) < length gws)" ..
  note n = H [THEN conjunct1]
  note run = H [THEN conjunct2, THEN conjunct1]
  note pos = H [THEN conjunct2, THEN conjunct2, THEN conjunct1]
  note stop = H [THEN conjunct2, THEN conjunct2, THEN conjunct2, THEN conjunct1]
  note before = H [THEN conjunct2, THEN conjunct2, THEN conjunct2, THEN conjunct2]
  let ?c = "(discover_gateways lib ^^ n) ?c0"
  note s = setup_valid [OF assms run]
  have len: "length gws = length (conf_gateways cfg)"
    using check_gateways_length [of "conf_gateways cfg"] assms by simp
  have lg: "discover_calls logged = 0"
    using check_gateways_no_discovery [of "conf_gateways cfg"] assms by simp
  have calls: "discover_calls (snd (snd (setup_xiaomi lib cfg))) = n"
    unfolding s using lg by (simp add: setup_tail_no_discovery del: append.simps)
  have client: "fst (snd (setup_xiaomi lib cfg)) = Some ?c"
    unfolding s by simp
  have ok: "fst (setup_xiaomi lib cfg) \<longleftrightarrow> gateways lib ?c \<noteq> []"
    unfolding s by simp
  have err: "gateways lib ?c = [] \<longrightarrow>
               last (snd (snd (setup_xiaomi lib cfg))) = Log Error_no_gateway_discovered"
    unfolding s by simp
  have never: "(\<forall>c'. gateways lib (discover_gateways lib c') = []) \<and> gws \<noteq> [] \<longrightarrow>
                 n = ?R \<and> (0 < ?R \<longrightarrow> \<not> fst (setup_xiaomi lib cfg))"
  proof (intro impI)
    assume h: "(\<forall>c'. gateways lib (discover_gateways lib c') = []) \<and> gws \<noteq> []"
    have empty: "0 < n \<Longrightarrow> gateways lib ?c = []"
    proof -
      assume "0 < n"
      then obtain m where "n = Suc m" by (cases n) auto
      with h show ?thesis by simp
    qed
    have eq: "n = ?R"
    proof (rule ccontr)
      assume "n \<noteq> ?R"
      with n have lt: "n < ?R" by simp
      with pos have "0 < n" by simp
      with empty stop lt h show False by simp
    qed
    moreover have "0 < ?R \<longrightarrow> \<not> fst (setup_xiaomi lib cfg)"
      using eq empty ok by simp
    ultimately show "n = ?R \<and> (0 < ?R \<longrightarrow> \<not> fst (setup_xiaomi lib cfg))" ..
  qed
  show ?thesis
    unfolding Let_def
    by (intro exI [of _ n] conjI) (rule n len calls client stop before ok err never)+
qed

theorem discovery_loop_bounded_witness:
  "discover_calls (snd (snd (setup_xiaomi silent_lib two_gateways))) = 3
   \<and> \<not> fst (setup_xiaomi silent_lib two_gateways)
   \<and> discover_calls (snd (snd (setup_xiaomi (finding_lib 1) two_gateways))) \<le> 3
   \<and> fst (setup_xiaomi (finding_lib 1) two_gateways)
   \<and> discover_calls (snd (snd (setup_xiaomi (finding_lib 3) two_gateways))) = 2
   \<and> fst (setup_xiaomi (finding_lib 3) two_gateways)"
proof -
  have never_found:
    "discover_calls (snd (snd (setup_xiaomi silent_lib two_gateways))) = 3
     \<and> \<not> fst (setup_xiaomi silent_lib two_gateways)
     \<and> discover_calls (snd (snd (setup_xiaomi (finding_lib 1) two_gateways))) \<le> 3
     \<and> fst (setup_xiaomi (finding_lib 1) two_gateways)"
  proof -
    have never: "\<forall>c'. gateways silent_lib (discover_gateways silent_lib c') = []"
      by (simp add: silent_lib_def)
    have retry: "conf_discovery_retry two_gateways = 3"
      by (simp add: two_gateways_def)
    have found: "\<And>n. 0 < n \<Longrightarrow> n \<le> 3 \<Longrightarrow>
        gateways (finding_lib 1) ((discover_gateways (finding_lib 1) ^^ n)
           (construct (finding_lib 1)
              [\<lparr>sid = Some ''f0b429aa0001'', key = Some ''0123456789abcdef''\<rparr>, \<lparr>sid = None, key = None\<rparr>]
              (conf_interface two_gateways))) \<noteq> []"
    proof -
      fix n :: nat assume "0 < n" "n \<le> 3"
      then have "n = 1 \<or> n = 2 \<or> n = 3" by auto
      then show "gateways (finding_lib 1) ((discover_gateways (finding_lib 1) ^^ n)
           (construct (finding_lib 1)
              [\<lparr>sid = Some ''f0b429aa0001'', key = Some ''0123456789abcdef''\<rparr>, \<lparr>sid = None, key = None\<rparr>]
              (conf_interface two_gateways))) \<noteq> []"
        by (auto simp: finding_lib_def hubs_def numeral_2_eq_2 numeral_3_eq_3)
    qed
    from discovery_loop_bounded [OF two_gateways_checked, of silent_lib] never retry
    have a: "discover_calls (snd (snd (setup_xiaomi silent_lib two_gateways))) = 3
             \<and> \<not> fst (setup_xiaomi silent_lib two_gateways)"
      by (auto simp: Let_def)
    from discovery_loop_bounded [OF two_gateways_checked, of "finding_lib 1"]
    obtain n where n: "n \<le> 3"
        "discover_calls (snd (snd (setup_xiaomi (finding_lib 1) two_gateways))) = n"
        "n < 3 \<longrightarrow> 2 \<le> length (gateways (finding_lib 1) ((discover_gateways (finding_lib 1) ^^ n)
           (construct (finding_lib 1)
              [\<lparr>sid = Some ''f0b429aa0001'', key = Some ''0123456789abcdef''\<rparr>, \<lparr>sid = None, key = None\<rparr>]
              (conf_interface two_gateways))))"
        "fst (setup_xiaomi (finding_lib 1) two_gateways) \<longleftrightarrow>
           gateways (finding_lib 1) ((discover_gateways (finding_lib 1) ^^ n)
           (construct (finding_lib 1)
              [\<lparr>sid = Some ''f0b429aa0001'', key = Some ''0123456789abcdef''\<rparr>, \<lparr>sid = None, key = None\<rparr>]
              (conf_interface two_gateways))) \<noteq> []"
      unfolding Let_def retry by auto
    have "0 < n"
    proof (rule ccontr)
      assume "\<not> 0 < n"
      then have "n = 0" by simp
      with n(3) show False by (simp add: finding_lib_def)
    qed
    with n found [of n] have "fst (setup_xiaomi (finding_lib 1) two_gateways)" by simp
    with a n show ?thesis by simp
  qed
  have found_early:
    "discover_calls (snd (snd (setup_xiaomi (finding_lib 3) two_gateways))) = 2
     \<and> fst (setup_xiaomi (finding_lib 3) two_gateways)"
  proof -
    let ?gws = "[\<lparr>sid = Some ''f0b429aa0001'', key = Some ''0123456789abcdef''\<rparr>,
                 \<lparr>sid = None, key = None\<rparr>]"
    let ?c0 = "construct (finding_lib 3) ?gws (conf_interface two_gateways)"
    let ?known = "\<lambda>i. length (gateways (finding_lib 3) ((discover_gateways (finding_lib 3) ^^ i) ?c0))"
    have retry: "conf_discovery_retry two_gateways = 3"
      by (simp add: two_gateways_def)
    have known: "\<And>i. ?known i = min (min i 3) 3"
      by (rule finding_lib_known)
    from discovery_loop_bounded [OF two_gateways_checked, of "finding_lib 3", unfolded Let_def]
    show ?thesis
    proof (elim exE conjE)
      fix n
      assume n: "n \<le> conf_discovery_retry two_gateways"
        and calls: "discover_calls (snd (snd (setup_xiaomi (finding_lib 3) two_gateways))) = n"
        and stop: "n < conf_discovery_retry two_gateways \<longrightarrow> length ?gws \<le> ?known n"
        and before: "\<forall>i. 0 < i \<and> i < n \<longrightarrow> ?known i < length ?gws"
        and ok: "fst (setup_xiaomi (finding_lib 3) two_gateways)
                   = (gateways (finding_lib 3) ((discover_gateways (finding_lib 3) ^^ n) ?c0) \<noteq> [])"
      from n retry have "n < 3 \<or> n = 3" by auto
      then have two: "n = 2"
      proof
        assume "n < 3"
        with stop retry known [of n] show ?thesis by simp
      next
        assume "n = 3"
        with before have "?known 2 < length ?gws" by simp
        with known [of 2] show ?thesis by simp
      qed
      have "?known 2 = 2" using known [of 2] by simp
      then have "gateways (finding_lib 3) ((discover_gateways (finding_lib 3) ^^ 2) ?c0) \<noteq> []"
        by auto
      with ok two calls show ?thesis by simp
    qed
  qed
  from never_found found_early show ?thesis by simp
qed

text \<open>
  The claim C3 as it is written fails when no gateway is configured: the library never
  finds a gateway, \<^verbatim>\<open>discovery_retry\<close> is 3, and the loop stops after its first call,
  since zero known gateways are as many as are configured.
\<close>

theorem discovery_no_gateways_counterexample:
  "gateways silent_lib (discover_gateways silent_lib ()) = []
   \<and> conf_discovery_retry no_gateways = 3
   \<and> setup_xiaomi silent_lib no_gateways
       = (False, Some (), [Discover_gateways, Log Error_no_gateway_discovered])
   \<and> discover_calls (snd (snd (setup_xiaomi silent_lib no_gateways))) = 1"
  by (simp add: setup_xiaomi_def silent_lib_def no_gateways_def discover_calls_def numeral_3_eq_3)

lemma invalid_key_not_valid:
  "gateway \<in> set gws \<Longrightarrow> key gateway = Some k \<Longrightarrow> length k \<noteq> 16 \<Longrightarrow> \<not> list_all key_valid gws"
proof -
  assume g: "gateway \<in> set gws" and k: "key gateway = Some k" "length k \<noteq> 16"
  from k have "\<not> key_valid gateway" by (simp add: key_valid_def)
  with g show ?thesis by (auto simp: list_all_iff)
qed

lemma no_key_valid: "key gateway = None \<Longrightarrow> key_valid gateway"
  by (simp add: key_valid_def)

text \<open>
  C6. A configured gateway with a key whose length is not 16 makes the set-up return
  \<open>False\<close>: the invalid key is logged, no library object is built and no discovery is
  made. The loop over the gateways fails for such a key only: it runs to its end exactly
  when every key is absent or has 16 characters, and with every key absent it logs one
  warning for each gateway.
\<close>

theorem invalid_key_fails_setup:
  "(gateway \<in> set (conf_gateways cfg) \<and> key gateway = Some k \<and> length k \<noteq> 16 \<longrightarrow>
      fst (setup_xiaomi lib cfg) = False
      \<and> fst (snd (setup_xiaomi lib cfg)) = None
      \<and> (\<exists>k'. Log (Error_invalid_key k') \<in> set (snd (snd (setup_xiaomi lib cfg))))
      \<and> discover_calls (snd (snd (setup_xiaomi lib cfg))) = 0)
   \<and> fst (check_gateways gws) = list_all key_valid gws
   \<and> (list_all (\<lambda>g. key g = None) gws \<longrightarrow>
        check_gateways gws =
          (True, map (\<lambda>g. g\<lparr>sid := map_option normalize_sid (sid g)\<rparr>) gws,
           replicate (length gws) (Log Warning_key_not_provided)))"
proof (intro conjI impI)
  assume a: "gateway \<in> set (conf_gateways cfg) \<and> key gateway = Some k \<and> length k \<noteq> 16"
  then have "\<not> list_all key_valid (conf_gateways cfg)"
    using invalid_key_not_valid [of gateway "conf_gateways cfg" k] by simp
  then have bad: "\<not> fst (check_gateways (conf_gateways cfg))"
    by (simp add: check_gateways_ok)
  note s = setup_invalid [OF bad, of lib]
  show "fst (setup_xiaomi lib cfg) = False" unfolding s by simp
  show "fst (snd (setup_xiaomi lib cfg)) = None" unfolding s by simp
  show "\<exists>k'. Log (Error_invalid_key k') \<in> set (snd (snd (setup_xiaomi lib cfg)))"
    unfolding s using check_gateways_invalid [OF bad] by simp
  show "discover_calls (snd (snd (setup_xiaomi lib cfg))) = 0"
    unfolding s by (simp add: check_gateways_no_discovery)
next
  show "fst (check_gateways gws) = list_all key_valid gws"
    by (rule check_gateways_ok)
next
  assume "list_all (\<lambda>g. key g = None) gws"
  then show "check_gateways gws =
          (True, map (\<lambda>g. g\<lparr>sid := map_option normalize_sid (sid g)\<rparr>) gws,
           replicate (length gws) (Log Warning_key_not_provided))"
    by (rule check_gateways_no_key)
qed

theorem invalid_key_fails_setup_witness:
  "setup_xiaomi (finding_lib 3) short_key
     = (False, None, [Log Warning_key_not_provided, Log (Error_invalid_key ''secret'')])
   \<and> check_gateways [\<lparr>sid = None, key = None\<rparr>]
     = (True, [\<lparr>sid = None, key = None\<rparr>], [Log Warning_key_not_provided])"
  using invalid_key_fails_setup
          [of "\<lparr>sid = Some ''f0b429aa0002'', key = Some ''secret''\<rparr>" short_key "''secret''"
              "finding_lib 3" "[\<lparr>sid = None, key = None\<rparr>]"]
  by (simp add: short_key_def setup_xiaomi_def)

subsection \<open>Facts about the push of a report\<close>

lemma push_data_changed:
  "parse_data_of data self = Inr (True, self') \<Longrightarrow>
   push_data parse_data_of data self = Inr (True, self')"
  by (simp add: push_data_def)

lemma push_data_unchanged:
  "parse_data_of data self = Inr (False, self') \<Longrightarrow>
   push_data parse_data_of data self = Inr (parse_voltage data self')"
  by (simp add: push_data_def split: prod.splits)

lemma push_data_error:
  "parse_data_of data self = Inl e \<Longrightarrow> push_data parse_data_of data self = Inl e"
  by (simp add: push_data_def)

lemma init_parses_voltage:
  "parse_data_new data \<lparr>new_sid = s, new_name = name @ ''_'' @ s, \<dots> = sub\<rparr>
       = Inr (changed, self') \<Longrightarrow>
   map_sum id fst (init parse_data_new ha_devices s data name sub)
     = Inr (snd (parse_voltage data
                   \<lparr>device_sid = new_sid self', device_name = new_name self',
                    device_state_attributes = Map.empty, \<dots> = new_device.more self'\<rparr>))"
  by (simp add: init_def Let_def)

lemma init_attribute_error:
  "init (\<lambda>data self. Inl AttributeError) ha_devices s data name sub = Inl AttributeError"
  by (simp add: init_def)

lemma push_data_base: "push_data parse_data data self = Inl NotImplementedError"
  by (simp add: push_data_def parse_data_def)

text \<open>
  C2. A device whose \<^verbatim>\<open>parse_data\<close> reports a change is pushed a report with a voltage
  of 3000 mV while its battery level stands at 100. The update of the state is scheduled,
  and the device is left as \<^verbatim>\<open>parse_data\<close> left it: \<^const>\<open>parse_voltage\<close> has not run,
  the battery level is still 100, where \<^const>\<open>parse_voltage\<close> on the same report sets it
  to 40. When \<^verbatim>\<open>parse_data\<close> reports no change, the same push sets it to 40, and so does
  \<^const>\<open>init\<close> on the same report, whatever \<^verbatim>\<open>parse_data\<close> reports.
\<close>

theorem push_data_skips_parse_voltage:
  "push_data parse_data_changed [''voltage'' \<mapsto> 3000] door_sensor = Inr (True, door_sensor)
   \<and> device_state_attributes door_sensor ATTR_BATTERY_LEVEL = Some 100
   \<and> device_state_attributes (snd (parse_voltage [''voltage'' \<mapsto> 3000] door_sensor))
        ATTR_BATTERY_LEVEL = Some 40
   \<and> push_data parse_data_unchanged [''voltage'' \<mapsto> 3000] door_sensor
        = Inr (True, door_sensor\<lparr>device_state_attributes := [ATTR_BATTERY_LEVEL \<mapsto> 40]\<rparr>)
   \<and> init parse_data_changed_new no_devices ''158d0001a2b3c4'' [''voltage'' \<mapsto> 3000]
        ''door_window_sensor'' ()
        = Inr (door_sensor\<lparr>device_state_attributes := [ATTR_BATTERY_LEVEL \<mapsto> 40]\<rparr>,
               no_devices(''158d0001a2b3c4'' :=
                 [door_sensor\<lparr>device_state_attributes := [ATTR_BATTERY_LEVEL \<mapsto> 40]\<rparr>]))"
proof -
  have v: "[''voltage'' \<mapsto> 3000::int] ''voltage'' = Some 3000" by simp
  note pv = parse_voltage_level [of "[''voltage'' \<mapsto> 3000]" 3000, OF v]
  show ?thesis
    by (simp add: push_data_def init_def pv parse_data_changed_def parse_data_unchanged_def
                  parse_data_changed_new_def no_devices_def door_sensor_def Let_def)
qed

subsection \<open>Facts about the arithmetic in double precision\<close>

lemma round_py_error: "\<bar>of_int (round_py y) - y\<bar> \<le> 1 / 2"
proof -
  have "of_int \<lfloor>y\<rfloor> \<le> y" "y < of_int \<lfloor>y\<rfloor> + 1" by linarith+
  then show ?thesis
    unfolding round_py_def Let_def by (auto simp: abs_le_iff)
qed

lemma round_py_unique:
  assumes "\<bar>y - of_int n\<bar> < 1 / 2"
  shows "round_py y = n"
proof (cases "of_int n \<le> y")
  case True
  with assms have "of_int n \<le> y \<and> y < of_int n + 1" by linarith
  then have f: "\<lfloor>y\<rfloor> = n" by linarith
  from True assms have "y - of_int n < 1 / 2" by linarith
  with f show ?thesis by (simp add: round_py_def Let_def)
next
  case False
  with assms have "of_int (n - 1) \<le> y \<and> y < of_int (n - 1) + 1" by simp
  then have f: "\<lfloor>y\<rfloor> = n - 1" by linarith
  from False assms have "1 / 2 < y - of_int (n - 1)" by simp
  with f show ?thesis by (simp add: round_py_def Let_def)
qed

lemma exponent_le:
  assumes "x \<noteq> 0"
  shows "2 powi exponent x \<le> \<bar>x\<bar>"
proof -
  obtain p q where pq: "quotient_of \<bar>x\<bar> = (p, q)" by (cases "quotient_of \<bar>x\<bar>")
  from pq have q: "0 < q" by (rule quotient_of_denom_pos)
  from pq have x: "\<bar>x\<bar> = of_int p / of_int q" by (rule quotient_of_div)
  from assms have "0 < \<bar>x\<bar>" by simp
  with x q have p: "0 < p" by (simp add: zero_less_divide_iff)
  let ?e = "bitlen p - bitlen q"
  show ?thesis
  proof (cases "2 powi ?e \<le> \<bar>x\<bar>")
    case True
    then show ?thesis by (simp add: exponent_def pq)
  next
    case False
    have bp: "1 \<le> bitlen p" using p by (simp add: bitlen_alt_def)
    have bq: "0 \<le> bitlen q" by (rule bitlen_nonneg)
    from bitlen_bounds [OF p] have "2 ^ nat (bitlen p - 1) \<le> p" by simp
    then have lo: "(2::rat) ^ nat (bitlen p - 1) \<le> of_int p"
      by (metis of_int_le_iff of_int_numeral of_int_power)
    from bitlen_bounds [OF q] have "q < 2 ^ nat (bitlen q)" by simp
    then have hi: "of_int q \<le> (2::rat) ^ nat (bitlen q)"
      by (metis less_imp_le of_int_le_iff of_int_numeral of_int_power)
    have "?e - 1 = int (nat (bitlen p - 1)) - int (nat (bitlen q))"
      using bp bq by simp
    then have "(2::rat) powi (?e - 1) = 2 powi (int (nat (bitlen p - 1)) - int (nat (bitlen q)))"
      by (rule arg_cong)
    also have "\<dots> = 2 powi int (nat (bitlen p - 1)) / 2 powi int (nat (bitlen q))"
      by (rule power_int_diff) simp
    also have "\<dots> = 2 ^ nat (bitlen p - 1) / 2 ^ nat (bitlen q)"
      by (simp only: power_int_of_nat)
    also have "\<dots> \<le> of_int p / of_int q"
      using lo hi q p by (intro frac_le) simp_all
    finally have "2 powi (?e - 1) \<le> \<bar>x\<bar>" using x by simp
    with False show ?thesis by (simp add: exponent_def pq)
  qed
qed

lemma exponent_gt:
  assumes "x \<noteq> 0"
  shows "\<bar>x\<bar> < 2 powi (exponent x + 1)"
proof -
  obtain p q where pq: "quotient_of \<bar>x\<bar> = (p, q)" by (cases "quotient_of \<bar>x\<bar>")
  from pq have q: "0 < q" by (rule quotient_of_denom_pos)
  from pq have x: "\<bar>x\<bar> = of_int p / of_int q" by (rule quotient_of_div)
  from assms have "0 < \<bar>x\<bar>" by simp
  with x q have p: "0 < p" by (simp add: zero_less_divide_iff)
  let ?e = "bitlen p - bitlen q"
  show ?thesis
  proof (cases "2 powi ?e \<le> \<bar>x\<bar>")
    case False
    then have "exponent x = ?e - 1" by (simp add: exponent_def pq)
    with False show ?thesis by simp
  next
    case True
    have bp: "0 \<le> bitlen p" by (rule bitlen_nonneg)
    have bq: "1 \<le> bitlen q" using q by (simp add: bitlen_alt_def)
    from bitlen_bounds [OF p] have "p < 2 ^ nat (bitlen p)" by simp
    then have hi: "of_int p < (2::rat) ^ nat (bitlen p)"
      by (metis of_int_less_iff of_int_numeral of_int_power)
    from bitlen_bounds [OF q] have "2 ^ nat (bitlen q - 1) \<le> q" by simp
    then have lo: "(2::rat) ^ nat (bitlen q - 1) \<le> of_int q"
      by (metis of_int_le_iff of_int_numeral of_int_power)
    have "of_int p / of_int q < (2::rat) ^ nat (bitlen p) / 2 ^ nat (bitlen q - 1)"
      using hi lo q p by (intro frac_less) simp_all
    also have "\<dots> = 2 powi int (nat (bitlen p)) / 2 powi int (nat (bitlen q - 1))"
      by (simp only: power_int_of_nat)
    also have "\<dots> = 2 powi (int (nat (bitlen p)) - int (nat (bitlen q - 1)))"
      by (rule power_int_diff [symmetric]) simp
    also have "int (nat (bitlen p)) - int (nat (bitlen q - 1)) = ?e + 1"
      using bp bq by simp
    finally have "\<bar>x\<bar> < 2 powi (?e + 1)" using x by simp
    moreover from True have "exponent x = ?e" by (simp add: exponent_def pq)
    ultimately show ?thesis by simp
  qed
qed

lemma float_round_examples:
  "float_round (1 / 10) = 3602879701896397 / 2 ^ 55"
  "float_round (575 / 1000) = 5179139571476070 / 2 ^ 53"
  "float_round 9007199254740993 = 9007199254740992"
  by code_simp+

lemma float_round_error: "\<bar>float_round x - x\<bar> \<le> \<bar>x\<bar> / 9007199254740992"
proof (cases "x = 0")
  case True
  then show ?thesis by (simp add: float_round_def)
next
  case False
  let ?ulp = "(2::rat) powi (exponent x - 52)"
  have pos: "0 < ?ulp" by simp
  have "float_round x - x = (of_int (round_py (x / ?ulp)) - x / ?ulp) * ?ulp"
    using False pos by (simp add: float_round_def Let_def field_simps)
  then have "\<bar>float_round x - x\<bar> = \<bar>of_int (round_py (x / ?ulp)) - x / ?ulp\<bar> * ?ulp"
    using pos by (simp add: abs_mult)
  also have "\<dots> \<le> 1 / 2 * ?ulp"
    using round_py_error [of "x / ?ulp"] pos by (intro mult_right_mono) simp_all
  also have "\<dots> = 2 powi exponent x / 9007199254740992"
    by (simp add: power_int_diff)
  also have "\<dots> \<le> \<bar>x\<bar> / 9007199254740992"
    using exponent_le [OF False] by (simp add: divide_right_mono)
  finally show ?thesis .
qed

lemma float_round_constants:
  "float_round 100 = 100" "float_round 500 = 500" "float_round 2800 = 2800"
  by code_simp+

lemma percent_error:
  assumes a: "0 \<le> a" "a \<le> 500"
    and s: "\<bar>s - a\<bar> \<le> a / 9007199254740992"
  shows "\<bar>float_round (float_round (s / 500) * 100) - a / 5\<bar> \<le> 1 / 1000000000000"
proof -
  let ?t = "float_round (s / 500)"
  let ?p = "float_round (?t * 100)"
  from a s have s0: "0 \<le> s" "s \<le> 501" by linarith+
  from float_round_error [of "s / 500"] s0
  have t: "\<bar>?t - s / 500\<bar> \<le> s / 500 / 9007199254740992" by simp
  with s0 have t0: "0 \<le> ?t" "?t \<le> 2" by linarith+
  from float_round_error [of "?t * 100"] t0
  have p: "\<bar>?p - ?t * 100\<bar> \<le> ?t * 100 / 9007199254740992" by simp
  from a s s0 t t0 p show ?thesis by linarith
qed

lemma fifth_near_integer: "\<bar>(of_int k :: rat) / 5 - of_int ((k + 2) div 5)\<bar> \<le> 2 / 5"
proof -
  let ?n = "(k + 2) div 5"
  have "k = 5 * ?n + ((k + 2) mod 5 - 2)" by presburger
  then have "(of_int k :: rat) = 5 * of_int ?n + of_int ((k + 2) mod 5 - 2)"
    by (metis of_int_add of_int_mult of_int_numeral)
  then have e: "(of_int k :: rat) / 5 - of_int ?n = of_int ((k + 2) mod 5 - 2) / 5"
    by (simp add: field_simps)
  have "- 2 \<le> (k + 2) mod 5 - 2" "(k + 2) mod 5 - 2 \<le> 2" by presburger+
  then have "- 2 \<le> (of_int ((k + 2) mod 5 - 2) :: rat)" "(of_int ((k + 2) mod 5 - 2) :: rat) \<le> 2"
    by (metis of_int_le_iff of_int_numeral of_int_minus)+
  then show ?thesis unfolding e by (simp add: abs_le_iff)
qed

lemma battery_level_clamped:
  "battery_level v =
     round_number (mul_py (truediv_py (sub_py (max_py (min_py v (PyInt 3300)) (PyInt 2800)) (PyInt 2800))
                                      (PyInt 500)) (PyInt 100))"
  by (simp add: battery_level_def Let_def)

lemma clamp_int:
  "max_py (min_py (PyInt v) (PyInt 3300)) (PyInt 2800) = PyInt (max (min v 3300) 2800)"
  by (simp add: min_py_def max_py_def min_def max_def)

lemma clamp_float:
  "max_py (min_py (PyFloat x) (PyInt 3300)) (PyInt 2800) =
     (if 3300 < x then PyInt 3300 else if x < 2800 then PyInt 2800 else PyFloat x)"
  by (simp add: min_py_def max_py_def)

lemma battery_level_int:
  "battery_level (PyInt v) = (max (min v 3300) 2800 - 2800 + 2) div 5"
proof -
  let ?k = "max (min v 3300) 2800 - 2800"
  have k: "0 \<le> (of_int ?k :: rat)" "(of_int ?k :: rat) \<le> 500"
    by (simp_all add: max_def min_def)
  have "battery_level (PyInt v) = round_py (float_round (float_round (of_int ?k / 500) * 100))"
    unfolding battery_level_clamped clamp_int by (simp add: float_round_constants)
  moreover have "round_py (float_round (float_round (of_int ?k / 500) * 100)) = (?k + 2) div 5"
  proof (rule round_py_unique)
    from percent_error [OF k, of "of_int ?k"]
    have "\<bar>float_round (float_round (of_int ?k / 500) * 100) - of_int ?k / 5\<bar>
            \<le> 1 / 1000000000000"
      by simp
    with fifth_near_integer [of ?k]
    show "\<bar>float_round (float_round (of_int ?k / 500) * 100) - of_int ((?k + 2) div 5)\<bar> < 1 / 2"
      by linarith
  qed
  ultimately show ?thesis by simp
qed

lemma battery_level_float_outside:
  "3300 < x \<Longrightarrow> battery_level (PyFloat x) = 100"
  "x < 2800 \<Longrightarrow> battery_level (PyFloat x) = 0"
proof -
  have i: "battery_level (PyInt 3300) = 100" "battery_level (PyInt 2800) = 0"
    by (simp_all add: battery_level_int)
  show "3300 < x \<Longrightarrow> battery_level (PyFloat x) = 100"
    using i(1) by (simp add: battery_level_clamped clamp_float clamp_int)
  show "x < 2800 \<Longrightarrow> battery_level (PyFloat x) = 0"
    using i(2) by (simp add: battery_level_clamped clamp_float clamp_int)
qed

lemma battery_level_float_inside:
  assumes "2800 \<le> x" "x \<le> 3300"
  shows "\<bar>of_int (battery_level (PyFloat x)) - (x - 2800) / 5\<bar> \<le> 1 / 2 + 1 / 1000000000000"
proof -
  let ?s = "float_round (x - 2800)"
  let ?p = "float_round (float_round (?s / 500) * 100)"
  from assms have c: "max_py (min_py (PyFloat x) (PyInt 3300)) (PyInt 2800) = PyFloat x"
    by (simp add: clamp_float)
  have lvl: "battery_level (PyFloat x) = round_py ?p"
    unfolding battery_level_clamped c by (simp add: float_round_constants)
  from assms have a: "0 \<le> x - 2800" "x - 2800 \<le> 500" by simp_all
  from float_round_error [of "x - 2800"] a
  have "\<bar>?s - (x - 2800)\<bar> \<le> (x - 2800) / 9007199254740992" by simp
  from percent_error [OF a this]
  have "\<bar>?p - (x - 2800) / 5\<bar> \<le> 1 / 1000000000000" .
  with round_py_error [of ?p] show ?thesis unfolding lvl by linarith
qed

lemma parse_voltage_py_int:
  "parse_voltage_py (map_option PyInt \<circ> data) self = parse_voltage data self"
proof (cases "data ''voltage''")
  case None
  then show ?thesis by (simp add: parse_voltage_py_def parse_voltage_absent)
next
  case (Some v)
  then show ?thesis
    by (simp add: parse_voltage_py_def battery_level_int parse_voltage_level [of data v])
qed

lemma battery_level_tie: "battery_level (PyFloat (6175 / 2)) = 57"
  by code_simp

text \<open>
  C4, as the code has it. For an integer voltage \<open>i\<close> in a report,
  \<^const>\<open>parse_voltage\<close> clamps \<open>i\<close> to the range from 2800 to 3300 and stores the rounding
  of \<open>(clamped - 2800) / 500 * 100\<close> as the battery level; the rounding is the same
  whether a tie goes to the even integer or up, since no tie occurs; 2800 gives 0, 3300
  gives 100, 3050 gives 50, every integer below 2800 gives 0 and every integer above 3300
  gives 100. The computation in double precision stores the same level for an integer. For
  a float \<open>x\<close> it stores 0 below 2800 and 100 above 3300, and from 2800 to 3300 an integer
  within \<open>1/2 + 10\<^sup>-\<^sup>1\<^sup>2\<close> of \<open>(x - 2800) / 500 * 100\<close>, which at a tie need not be the
  rounding of this value.
\<close>

theorem parse_voltage_battery_level:
  "(data ''voltage'' = Some i \<longrightarrow>
      (let clamped = max (min i 3300) 2800;
           level = device_state_attributes (snd (parse_voltage data self)) ATTR_BATTERY_LEVEL
       in 2800 \<le> clamped \<and> clamped \<le> 3300
        \<and> (2800 \<le> i \<and> i \<le> 3300 \<longrightarrow> clamped = i)
        \<and> level = Some (round_py ((of_int (clamped - 2800) / of_int (3300 - 2800)) * 100))
        \<and> level = Some (round ((of_int (clamped - 2800) / of_int (3300 - 2800)) * 100 :: rat))
        \<and> (i = 2800 \<longrightarrow> level = Some 0)
        \<and> (i = 3300 \<longrightarrow> level = Some 100)
        \<and> (i = 3050 \<longrightarrow> level = Some 50)
        \<and> (i < 2800 \<longrightarrow> level = Some 0)
        \<and> (i > 3300 \<longrightarrow> level = Some 100)
        \<and> parse_voltage_py (map_option PyInt \<circ> data) self = parse_voltage data self
        \<and> battery_level (PyInt i) = the level))
   \<and> (reading ''voltage'' = Some (PyFloat x) \<longrightarrow>
      (let level = device_state_attributes (snd (parse_voltage_py reading self)) ATTR_BATTERY_LEVEL
       in (x < 2800 \<longrightarrow> level = Some 0)
        \<and> (3300 < x \<longrightarrow> level = Some 100)
        \<and> (2800 \<le> x \<and> x \<le> 3300 \<longrightarrow>
             (\<exists>l. level = Some l
                \<and> \<bar>of_int l - ((x - 2800) / (3300 - 2800)) * 100\<bar> \<le> 1 / 2 + 1 / 10 ^ 12))))"
proof (intro conjI impI)
  assume v: "data ''voltage'' = Some i"
  have lvl: "device_state_attributes (snd (parse_voltage data self)) ATTR_BATTERY_LEVEL
               = Some ((max (min i 3300) 2800 - 2800 + 2) div 5)"
    by (simp add: parse_voltage_level [of data i, OF v])
  show "let clamped = max (min i 3300) 2800;
           level = device_state_attributes (snd (parse_voltage data self)) ATTR_BATTERY_LEVEL
       in 2800 \<le> clamped \<and> clamped \<le> 3300
        \<and> (2800 \<le> i \<and> i \<le> 3300 \<longrightarrow> clamped = i)
        \<and> level = Some (round_py ((of_int (clamped - 2800) / of_int (3300 - 2800)) * 100))
        \<and> level = Some (round ((of_int (clamped - 2800) / of_int (3300 - 2800)) * 100 :: rat))
        \<and> (i = 2800 \<longrightarrow> level = Some 0)
        \<and> (i = 3300 \<longrightarrow> level = Some 100)
        \<and> (i = 3050 \<longrightarrow> level = Some 50)
        \<and> (i < 2800 \<longrightarrow> level = Some 0)
        \<and> (i > 3300 \<longrightarrow> level = Some 100)
        \<and> parse_voltage_py (map_option PyInt \<circ> data) self = parse_voltage data self
        \<and> battery_level (PyInt i) = the level"
    unfolding Let_def lvl percent_eq round_py_fifths round_fifths parse_voltage_py_int
      battery_level_int
    by (auto simp: max_def min_def)
next
  assume r: "reading ''voltage'' = Some (PyFloat x)"
  have lvl: "device_state_attributes (snd (parse_voltage_py reading self)) ATTR_BATTERY_LEVEL
               = Some (battery_level (PyFloat x))"
    using r by (simp add: parse_voltage_py_def)
  have "\<bar>of_int (battery_level (PyFloat x)) - ((x - 2800) / (3300 - 2800)) * 100\<bar>
          \<le> 1 / 2 + 1 / 10 ^ 12" if "2800 \<le> x \<and> x \<le> 3300"
  proof -
    have e: "((x - 2800) / (3300 - 2800)) * 100 = (x - 2800) / 5" by simp
    have n: "(1 / 10 ^ 12 :: rat) = 1 / 1000000000000" by simp
    from that show ?thesis
      unfolding e n by (intro battery_level_float_inside) simp_all
  qed
  then show "let level = device_state_attributes (snd (parse_voltage_py reading self)) ATTR_BATTERY_LEVEL
       in (x < 2800 \<longrightarrow> level = Some 0)
        \<and> (3300 < x \<longrightarrow> level = Some 100)
        \<and> (2800 \<le> x \<and> x \<le> 3300 \<longrightarrow>
             (\<exists>l. level = Some l
                \<and> \<bar>of_int l - ((x - 2800) / (3300 - 2800)) * 100\<bar> \<le> 1 / 2 + 1 / 10 ^ 12))"
    unfolding Let_def lvl by (simp add: battery_level_float_outside)
qed

theorem parse_voltage_battery_level_witness:
  "device_state_attributes (snd (parse_voltage [''voltage'' \<mapsto> 3100] door_sensor)) ATTR_BATTERY_LEVEL = Some 60
   \<and> device_state_attributes (snd (parse_voltage [''voltage'' \<mapsto> 2500] door_sensor)) ATTR_BATTERY_LEVEL = Some 0
   \<and> device_state_attributes (snd (parse_voltage [''voltage'' \<mapsto> 3600] door_sensor)) ATTR_BATTERY_LEVEL = Some 100
   \<and> device_state_attributes (snd (parse_voltage [''voltage'' \<mapsto> 3050] door_sensor)) ATTR_BATTERY_LEVEL = Some 50
   \<and> battery_level (PyInt 3100) = 60
   \<and> device_state_attributes
        (snd (parse_voltage_py [''voltage'' \<mapsto> PyFloat (7201 / 2)] door_sensor)) ATTR_BATTERY_LEVEL = Some 100
   \<and> device_state_attributes
        (snd (parse_voltage_py [''voltage'' \<mapsto> PyFloat (5599 / 2)] door_sensor)) ATTR_BATTERY_LEVEL = Some 0
   \<and> (\<exists>l. device_state_attributes
             (snd (parse_voltage_py [''voltage'' \<mapsto> PyFloat (6175 / 2)] door_sensor)) ATTR_BATTERY_LEVEL = Some l
          \<and> \<bar>of_int l - 115 / 2\<bar> \<le> (1 / 2 + 1 / 10 ^ 12 :: rat))"
  using parse_voltage_battery_level [of "[''voltage'' \<mapsto> 3100]" 3100 door_sensor
                                        "[''voltage'' \<mapsto> PyFloat (7201 / 2)]" "7201 / 2"]
        parse_voltage_battery_level [of "[''voltage'' \<mapsto> 2500]" 2500 door_sensor
                                        "[''voltage'' \<mapsto> PyFloat (5599 / 2)]" "5599 / 2"]
        parse_voltage_battery_level [of "[''voltage'' \<mapsto> 3600]" 3600 door_sensor
                                        "[''voltage'' \<mapsto> PyFloat (6175 / 2)]" "6175 / 2"]
        parse_voltage_battery_level [of "[''voltage'' \<mapsto> 3050]" 3050 door_sensor
                                        "[''voltage'' \<mapsto> PyFloat (6175 / 2)]" "6175 / 2"]
  by (simp add: Let_def round_py_def)

text \<open>
  The claim C4 as it is written fails for a float: a report with a voltage of 3087.5 is
  within the range, the exact value of \<open>(3087.5 - 2800) / 500 * 100\<close> is 57.5, whose
  rounding is 58 with a tie to the even integer as with a tie upwards, and the level
  stored is 57. In double precision the quotient is just below 0.575 and the product
  just below 57.5.
\<close>

theorem battery_level_float_counterexample:
  "device_state_attributes
     (snd (parse_voltage_py [''voltage'' \<mapsto> PyFloat (6175 / 2)] door_sensor)) ATTR_BATTERY_LEVEL
     = Some 57
   \<and> max (min (6175 / 2) 3300) 2800 = (6175 / 2 :: rat)
   \<and> round_py (((6175 / 2 - 2800) / (3300 - 2800)) * 100) = 58
   \<and> round (((6175 / 2 - 2800) / (3300 - 2800)) * 100 :: rat) = 58
   \<and> float_round (float_round (6175 / 2 - 2800) / 500) < 575 / 1000
   \<and> float_round (float_round (float_round (6175 / 2 - 2800) / 500) * 100) < 115 / 2"
proof -
  have "battery_level (PyFloat (6175 / 2)) = 57"
    by (rule battery_level_tie)
  moreover have "round_py (((6175 / 2 - 2800) / (3300 - 2800)) * 100) = 58"
    by code_simp
  moreover have "round (((6175 / 2 - 2800) / (3300 - 2800)) * 100 :: rat) = 58"
    by (simp add: round_def)
  moreover have "float_round (float_round (6175 / 2 - 2800) / 500) < 575 / 1000"
    by code_simp
  moreover have "float_round (float_round (float_round (6175 / 2 - 2800) / 500) * 100) < 115 / 2"
    by code_simp
  ultimately show ?thesis
    by (simp add: parse_voltage_py_def)
qed

end
